theory Spec2Isabelle
  imports Main
begin

section \<open>JSON values and the decoder of encoding/json\<close>

text \<open>
  The program reads and writes JSON through Go's \<^verbatim>\<open>encoding/json\<close>. A decoded value of
  Go type \<^verbatim>\<open>interface{}\<close> is \<^verbatim>\<open>nil\<close>, a bool, a number, a string, a slice or a map; the
  type \<open>json\<close> holds the non-nil shapes and \<open>JNull\<close>, and a field of type \<^verbatim>\<open>interface{}\<close>
  is a \<open>json option\<close> whose \<open>None\<close> is Go's \<^verbatim>\<open>nil\<close>. \<open>JNumber\<close> is a number as it is
  written, which is what the parser gives (and how a Go integer that a caller supplies is
  written); \<open>JFloat neg m e\<close> is the \<^verbatim>\<open>float64\<close> of value \<open>m * 2 ^ e\<close>, negative when
  \<open>neg\<close>, which is what the decoder stores in an \<^verbatim>\<open>interface{}\<close>.
\<close>

datatype json =
    JNull
  | JBool bool
  | JNumber string
  | JFloat bool int int
  | JString string
  | JArray "json list"
  | JObject "(string \<times> json) list"

datatype token =
    TLBrace | TRBrace | TLBrack | TRBrack | TColon | TComma
  | TStr string | TNum string | TTrue | TFalse | TNull

definition is_ws :: "char \<Rightarrow> bool" where
  "is_ws c = (c = CHR '' '' \<or> c = CHR 0x09 \<or> c = CHR 0x0A \<or> c = CHR 0x0D)"

definition is_digit :: "char \<Rightarrow> bool" where
  "is_digit c = (48 \<le> (of_char c :: nat) \<and> (of_char c :: nat) \<le> 57)"

definition hex_val :: "char \<Rightarrow> nat option" where
  "hex_val c =
     (let n = (of_char c :: nat) in
      if 48 \<le> n \<and> n \<le> 57 then Some (n - 48)
      else if 97 \<le> n \<and> n \<le> 102 then Some (n - 87)
      else if 65 \<le> n \<and> n \<le> 70 then Some (n - 55)
      else None)"

definition hex4 :: "char \<Rightarrow> char \<Rightarrow> char \<Rightarrow> char \<Rightarrow> nat option" where
  "hex4 a b c d =
     (case (hex_val a, hex_val b, hex_val c, hex_val d) of
        (Some w, Some x, Some y, Some z) \<Rightarrow> Some (((w * 16 + x) * 16 + y) * 16 + z)
      | _ \<Rightarrow> None)"

definition utf8_encode :: "nat \<Rightarrow> string" where
  "utf8_encode n =
     (if n < 0x80 then [char_of n]
      else if n < 0x800 then [char_of (0xC0 + n div 64), char_of (0x80 + n mod 64)]
      else if n < 0x10000 then
        [char_of (0xE0 + n div 4096), char_of (0x80 + (n div 64) mod 64), char_of (0x80 + n mod 64)]
      else
        [char_of (0xF0 + n div 262144), char_of (0x80 + (n div 4096) mod 64),
         char_of (0x80 + (n div 64) mod 64), char_of (0x80 + n mod 64)])"

definition unescape :: "char \<Rightarrow> char option" where
  "unescape e =
     (if e = CHR 0x22 \<or> e = CHR 0x5C \<or> e = CHR ''/'' then Some e
      else if e = CHR ''b'' then Some (CHR 0x08)
      else if e = CHR ''f'' then Some (CHR 0x0C)
      else if e = CHR ''n'' then Some (CHR 0x0A)
      else if e = CHR ''r'' then Some (CHR 0x0D)
      else if e = CHR ''t'' then Some (CHR 0x09)
      else None)"

text \<open>
  The code point of a \<^verbatim>\<open>\u\<close> escape whose four digits gave \<open>n\<close>, and what is left of the
  input: a high surrogate followed by an escaped low surrogate is one code point, any other
  surrogate is U+FFFD.
\<close>

definition surrogate :: "nat \<Rightarrow> string \<Rightarrow> nat \<times> string" where
  "surrogate n cs =
     (if 0xD800 \<le> n \<and> n < 0xDC00 then
        (case cs of
           b # u # h1 # h2 # h3 # h4 # rest \<Rightarrow>
             (if b = CHR 0x5C \<and> u = CHR ''u'' then
                (case hex4 h1 h2 h3 h4 of
                   Some m \<Rightarrow>
                     (if 0xDC00 \<le> m \<and> m < 0xE000
                      then (0x10000 + (n - 0xD800) * 1024 + (m - 0xDC00), rest)
                      else (0xFFFD, cs))
                 | None \<Rightarrow> (0xFFFD, cs))
              else (0xFFFD, cs))
         | _ \<Rightarrow> (0xFFFD, cs))
      else if 0xDC00 \<le> n \<and> n < 0xE000 then (0xFFFD, cs)
      else (n, cs))"

lemma surrogate_length: "surrogate n cs = (m, rest) \<Longrightarrow> length rest \<le> length cs"
  by (auto simp: surrogate_def split: if_splits list.splits option.splits)

text \<open>
  How many bytes follow the first byte \<open>c\<close> of a well-formed UTF-8 sequence of two to four
  bytes that starts the input; \<open>0\<close> when the bytes are no such sequence
  (\<^verbatim>\<open>utf8.DecodeRune\<close> gives \<^verbatim>\<open>RuneError\<close> then).
\<close>

definition utf8_follow :: "char \<Rightarrow> string \<Rightarrow> nat" where
  "utf8_follow c cs =
     (let b0 = (of_char c :: nat);
          bs = (map of_char (take 3 cs) :: nat list);
          cont = (\<lambda>b. 128 \<le> b \<and> b \<le> (191 :: nat))
      in if 194 \<le> b0 \<and> b0 \<le> 223 then
           (case bs of b1 # r \<Rightarrow> (if cont b1 then 1 else 0) | [] \<Rightarrow> 0)
         else if 224 \<le> b0 \<and> b0 \<le> 239 then
           (case bs of
              b1 # b2 # r \<Rightarrow>
                (if (if b0 = 224 then 160 else 128) \<le> b1
                    \<and> b1 \<le> (if b0 = 237 then 159 else 191) \<and> cont b2
                 then 2 else 0)
            | _ \<Rightarrow> 0)
         else if 240 \<le> b0 \<and> b0 \<le> 244 then
           (case bs of
              b1 # b2 # b3 # r \<Rightarrow>
                (if (if b0 = 240 then 144 else 128) \<le> b1
                    \<and> b1 \<le> (if b0 = 244 then 143 else 191) \<and> cont b2 \<and> cont b3
                 then 3 else 0)
            | _ \<Rightarrow> 0)
         else 0)"

text \<open>
  One step inside a string literal, at the byte \<open>c\<close> that is not the closing quote: the bytes
  it stands for and the input after it. An escape is replaced by what it names, a control
  character is an error, and a byte that starts no well-formed UTF-8 sequence becomes U+FFFD.
\<close>

definition string_unit :: "char \<Rightarrow> string \<Rightarrow> (string \<times> string) option" where
  "string_unit c cs =
     (if c = CHR 0x5C then
        (case cs of
           [] \<Rightarrow> None
         | e # cs' \<Rightarrow>
             (if e = CHR ''u'' then
                (case cs' of
                   h1 # h2 # h3 # h4 # rest \<Rightarrow>
                     (case hex4 h1 h2 h3 h4 of
                        None \<Rightarrow> None
                      | Some n \<Rightarrow>
                          Some (utf8_encode (fst (surrogate n rest)), snd (surrogate n rest)))
                 | _ \<Rightarrow> None)
              else
                (case unescape e of
                   None \<Rightarrow> None
                 | Some b \<Rightarrow> Some ([b], cs'))))
      else if (of_char c :: nat) < 32 then None
      else if (of_char c :: nat) < 128 then Some ([c], cs)
      else if utf8_follow c cs = 0 then Some (utf8_encode 0xFFFD, cs)
      else Some (c # take (utf8_follow c cs) cs, drop (utf8_follow c cs) cs))"

lemma string_unit_length: "string_unit c cs = Some (bs, rest) \<Longrightarrow> length rest \<le> length cs"
proof -
  have s: "length (snd (surrogate n r)) \<le> length r" for n r
    using surrogate_length [of n r] by (cases "surrogate n r") simp
  assume "string_unit c cs = Some (bs, rest)"
  then show ?thesis
    using s
    by (auto simp: string_unit_def le_SucI split: if_splits list.splits option.splits
        intro: le_trans [OF s])
qed

text \<open>The body of a string literal, after its opening quote; \<open>acc\<close> is what was read, reversed.\<close>

function scan_string :: "string \<Rightarrow> string \<Rightarrow> (string \<times> string) option" where
  "scan_string acc [] = None"
| "scan_string acc (c # cs) =
     (if c = CHR 0x22 then Some (rev acc, cs)
      else
        (case string_unit c cs of
           None \<Rightarrow> None
         | Some (bs, rest) \<Rightarrow> scan_string (rev bs @ acc) rest))"
  by pat_completeness auto
termination
proof (relation "measure (\<lambda>(acc, cs). length cs)", goal_cases)
  case 1
  show ?case by simp
next
  case (2 acc c cs x2 bs rest)
  then have "string_unit c cs = Some (bs, rest)" by simp
  from string_unit_length [OF this] show ?case by simp
qed

text \<open>
  A number literal: an optional minus, \<^verbatim>\<open>0\<close> or a digit run that does not start with
  \<^verbatim>\<open>0\<close>, an optional fraction, an optional exponent.
\<close>

definition scan_frac :: "string \<Rightarrow> (string \<times> string) option" where
  "scan_frac cs =
     (case cs of
        [] \<Rightarrow> Some ([], cs)
      | c # r \<Rightarrow>
          (if c = CHR ''.'' then
             (if takeWhile is_digit r = [] then None
              else Some (c # takeWhile is_digit r, dropWhile is_digit r))
           else Some ([], cs)))"

definition scan_sign :: "string \<Rightarrow> string \<times> string" where
  "scan_sign cs =
     (case cs of
        [] \<Rightarrow> ([], cs)
      | c # r \<Rightarrow> (if c = CHR ''+'' \<or> c = CHR ''-'' then ([c], r) else ([], cs)))"

definition scan_exp :: "string \<Rightarrow> (string \<times> string) option" where
  "scan_exp cs =
     (case cs of
        [] \<Rightarrow> Some ([], cs)
      | c # r \<Rightarrow>
          (if c = CHR ''e'' \<or> c = CHR ''E'' then
             (let (sg, r') = scan_sign r in
              if takeWhile is_digit r' = [] then None
              else Some (c # sg @ takeWhile is_digit r', dropWhile is_digit r'))
           else Some ([], cs)))"

definition scan_int :: "string \<Rightarrow> (string \<times> string) option" where
  "scan_int cs =
     (case cs of
        [] \<Rightarrow> None
      | d # r \<Rightarrow>
          (if \<not> is_digit d then None
           else if d = CHR ''0'' then Some ([d], r)
           else Some (d # takeWhile is_digit r, dropWhile is_digit r)))"

definition scan_number :: "string \<Rightarrow> (string \<times> string) option" where
  "scan_number cs =
     (let (sg, r0) = (case cs of
                        [] \<Rightarrow> ([], cs)
                      | c # r \<Rightarrow> (if c = CHR ''-'' then ([c], r) else ([], cs)))
      in case scan_int r0 of
           None \<Rightarrow> None
         | Some (ip, r1) \<Rightarrow>
             (case scan_frac r1 of
                None \<Rightarrow> None
              | Some (fp, r2) \<Rightarrow>
                  (case scan_exp r2 of
                     None \<Rightarrow> None
                   | Some (ep, r3) \<Rightarrow> Some (sg @ ip @ fp @ ep, r3))))"

lemma scan_frac_length: "scan_frac cs = Some (l, rest) \<Longrightarrow> length rest \<le> length cs"
  by (auto simp: scan_frac_def split: list.splits if_splits
      intro: le_SucI length_dropWhile_le)

lemma scan_sign_length: "scan_sign cs = (l, rest) \<Longrightarrow> length rest \<le> length cs"
  by (auto simp: scan_sign_def split: list.splits if_splits)

lemma scan_exp_length: "scan_exp cs = Some (l, rest) \<Longrightarrow> length rest \<le> length cs"
proof (cases cs)
  case Nil
  assume "scan_exp cs = Some (l, rest)"
  with Nil show ?thesis by (simp add: scan_exp_def)
next
  case (Cons c r)
  assume a: "scan_exp cs = Some (l, rest)"
  obtain sg r' where s: "scan_sign r = (sg, r')" by (cases "scan_sign r")
  have "length r' \<le> length r" using scan_sign_length [OF s] .
  moreover have "length (dropWhile is_digit r') \<le> length r'" by (rule length_dropWhile_le)
  ultimately show ?thesis
    using a Cons s by (auto simp: scan_exp_def split: if_splits)
qed

lemma scan_int_length: "scan_int cs = Some (l, rest) \<Longrightarrow> length rest < length cs"
  by (auto simp: scan_int_def split: list.splits if_splits
      intro: le_imp_less_Suc length_dropWhile_le)

lemma scan_number_length:
  assumes "scan_number cs = Some (l, rest)"
  shows "length rest < length cs"
proof -
  obtain sg r0 where r0: "(case cs of [] \<Rightarrow> ([], cs)
      | c # r \<Rightarrow> (if c = CHR ''-'' then ([c], r) else ([], cs))) = (sg, r0)"
    by (cases "(case cs of [] \<Rightarrow> ([]::string, cs)
      | c # r \<Rightarrow> (if c = CHR ''-'' then ([c], r) else ([], cs)))") auto
  have l0: "length r0 \<le> length cs"
    using r0 by (auto split: list.splits if_splits)
  from assms r0 obtain ip r1 where i: "scan_int r0 = Some (ip, r1)"
    by (auto simp: scan_number_def split: option.splits)
  from assms r0 i obtain fp r2 where f: "scan_frac r1 = Some (fp, r2)"
    by (auto simp: scan_number_def split: option.splits)
  from assms r0 i f obtain ep where e: "scan_exp r2 = Some (ep, rest)"
    by (auto simp: scan_number_def split: option.splits)
  from scan_int_length [OF i] scan_frac_length [OF f] scan_exp_length [OF e] l0
  show ?thesis by simp
qed

lemma scan_string_length: "scan_string acc cs = Some (s, rest) \<Longrightarrow> length rest < length cs"
proof (induction acc cs rule: scan_string.induct)
  case (1 acc)
  then show ?case by simp
next
  case (2 acc c cs)
  show ?case
  proof (cases "c = CHR 0x22")
    case True
    with 2 show ?thesis by simp
  next
    case False
    with "2.prems" obtain bs r where u: "string_unit c cs = Some (bs, r)"
      and sc: "scan_string (rev bs @ acc) r = Some (s, rest)"
      by (auto split: option.splits)
    from "2.IH" [OF False u refl sc] string_unit_length [OF u]
    show ?thesis by simp
  qed
qed

text \<open>The tokens of a JSON text; \<open>None\<close> when a byte starts no token.\<close>

function lex :: "string \<Rightarrow> token list option" where
  "lex [] = Some []"
| "lex (c # cs) =
     (if is_ws c then lex cs
      else if c = CHR ''{'' then map_option (Cons TLBrace) (lex cs)
      else if c = CHR ''}'' then map_option (Cons TRBrace) (lex cs)
      else if c = CHR ''['' then map_option (Cons TLBrack) (lex cs)
      else if c = CHR '']'' then map_option (Cons TRBrack) (lex cs)
      else if c = CHR '':'' then map_option (Cons TColon) (lex cs)
      else if c = CHR '','' then map_option (Cons TComma) (lex cs)
      else if c = CHR 0x22 then
        (case scan_string [] cs of
           None \<Rightarrow> None
         | Some (s, rest) \<Rightarrow> map_option (Cons (TStr s)) (lex rest))
      else if c = CHR ''-'' \<or> is_digit c then
        (case scan_number (c # cs) of
           None \<Rightarrow> None
         | Some (l, rest) \<Rightarrow> map_option (Cons (TNum l)) (lex rest))
      else if take 4 (c # cs) = ''true'' then map_option (Cons TTrue) (lex (drop 3 cs))
      else if take 5 (c # cs) = ''false'' then map_option (Cons TFalse) (lex (drop 4 cs))
      else if take 4 (c # cs) = ''null'' then map_option (Cons TNull) (lex (drop 3 cs))
      else None)"
  by pat_completeness auto
termination
proof (relation "measure length", goal_cases)
  case (9 c cs x2 s rest)
  then have "scan_string [] cs = Some (s, rest)" by simp
  from scan_string_length [OF this] show ?case by simp
next
  case (10 c cs x2 l rest)
  then have "scan_number (c # cs) = Some (l, rest)" by simp
  from scan_number_length [OF this] show ?case by simp
qed simp_all

text \<open>
  The parser reads the tokens one at a time and keeps the open arrays and objects on a
  stack, as the scanner of \<^verbatim>\<open>encoding/json\<close> keeps its parse states. A frame holds what
  was read of its array or object, last first.
\<close>

datatype frame =
    FArr "json list"
  | FObj "(string \<times> json) list"
  | FKey string "(string \<times> json) list"

datatype pstate =
    PValue          \<comment> \<open>a value must come\<close>
  | PValueOrClose   \<comment> \<open>after \<^verbatim>\<open>[\<close>: a value or \<^verbatim>\<open>]\<close>\<close>
  | PKey            \<comment> \<open>after a comma in an object: a key must come\<close>
  | PKeyOrClose     \<comment> \<open>after \<^verbatim>\<open>{\<close>: a key or \<^verbatim>\<open>}\<close>\<close>
  | PColon          \<comment> \<open>after a key\<close>
  | PAfter          \<comment> \<open>after a value inside an array or object\<close>
  | PDone json      \<comment> \<open>the top-level value is complete\<close>

text \<open>An array or object may be opened while fewer than \<open>maxNestingDepth\<close> are open.\<close>

definition maxNestingDepth :: int where
  "maxNestingDepth = 10000"

fun put_value :: "json \<Rightarrow> frame list \<Rightarrow> (frame list \<times> pstate) option" where
  "put_value v [] = Some ([], PDone v)"
| "put_value v (FArr xs # st) = Some (FArr (v # xs) # st, PAfter)"
| "put_value v (FKey k kvs # st) = Some (FObj ((k, v) # kvs) # st, PAfter)"
| "put_value v (FObj kvs # st) = None"

fun begin_value :: "token \<Rightarrow> frame list \<Rightarrow> (frame list \<times> pstate) option" where
  "begin_value (TStr s) st = put_value (JString s) st"
| "begin_value (TNum l) st = put_value (JNumber l) st"
| "begin_value TTrue st = put_value (JBool True) st"
| "begin_value TFalse st = put_value (JBool False) st"
| "begin_value TNull st = put_value JNull st"
| "begin_value TLBrack st =
     (if int (length st) < maxNestingDepth then Some (FArr [] # st, PValueOrClose) else None)"
| "begin_value TLBrace st =
     (if int (length st) < maxNestingDepth then Some (FObj [] # st, PKeyOrClose) else None)"
| "begin_value _ st = None"

fun pstep :: "frame list \<times> pstate \<Rightarrow> token \<Rightarrow> (frame list \<times> pstate) option" where
  "pstep (st, PValue) t = begin_value t st"
| "pstep (FArr [] # st, PValueOrClose) TRBrack = put_value (JArray []) st"
| "pstep (st, PValueOrClose) t = begin_value t st"
| "pstep (FObj kvs # st, PKey) (TStr k) = Some (FKey k kvs # st, PColon)"
| "pstep (FObj [] # st, PKeyOrClose) TRBrace = put_value (JObject []) st"
| "pstep (FObj kvs # st, PKeyOrClose) (TStr k) = Some (FKey k kvs # st, PColon)"
| "pstep (st, PColon) TColon = Some (st, PValue)"
| "pstep (FArr xs # st, PAfter) TComma = Some (FArr xs # st, PValue)"
| "pstep (FArr xs # st, PAfter) TRBrack = put_value (JArray (rev xs)) st"
| "pstep (FObj kvs # st, PAfter) TComma = Some (FObj kvs # st, PKey)"
| "pstep (FObj kvs # st, PAfter) TRBrace = put_value (JObject (rev kvs)) st"
| "pstep _ _ = None"

fun prun :: "frame list \<times> pstate \<Rightarrow> token list \<Rightarrow> json option" where
  "prun (st, PDone v) [] = Some v"
| "prun _ [] = None"
| "prun c (t # ts) = (case pstep c t of None \<Rightarrow> None | Some c' \<Rightarrow> prun c' ts)"

text \<open>
  The value of a JSON text, \<open>None\<close> where \<^verbatim>\<open>json.Unmarshal\<close> reports a syntax error. The
  whole input is checked before anything is decoded, so an error anywhere in it, also
  after a complete field, gives \<open>None\<close>.
\<close>

definition json_parse :: "string \<Rightarrow> json option" where
  "json_parse data = (case lex data of None \<Rightarrow> None | Some ts \<Rightarrow> prun ([], PValue) ts)"

text \<open>
  What \<^verbatim>\<open>json.Unmarshal\<close> reports: a syntax error, or a JSON value that does not fit the
  Go type of the field named (the whole struct when the name is empty).
\<close>

datatype unmarshal_error = SyntaxError | UnmarshalTypeError string

text \<open>
  A key of a JSON object names the struct field whose tag it equals, or else the first one
  whose tag it equals after folding. Folding takes a lower-case ASCII letter to its upper
  case, and the two characters beyond ASCII that Unicode folds to ASCII letters: U+017F
  (bytes C5 BF) to \<^verbatim>\<open>S\<close> and U+212A (bytes E2 84 AA) to \<^verbatim>\<open>K\<close>. Any other character beyond
  ASCII folds to one beyond ASCII; it is left as it is, which decides the same matches with
  the tags of this program, all of them ASCII.
\<close>

definition fold_char :: "char \<Rightarrow> char" where
  "fold_char c =
     (if 97 \<le> (of_char c :: nat) \<and> (of_char c :: nat) \<le> 122
      then char_of ((of_char c :: nat) - 32) else c)"

function foldName :: "string \<Rightarrow> string" where
  "foldName [] = []"
| "foldName (c # cs) =
     (if c = CHR 0xC5 \<and> take 1 cs = [CHR 0xBF] then CHR ''S'' # foldName (drop 1 cs)
      else if c = CHR 0xE2 \<and> take 2 cs = [CHR 0x84, CHR 0xAA]
        then CHR ''K'' # foldName (drop 2 cs)
      else fold_char c # foldName cs)"
  by pat_completeness auto
termination
  by (relation "measure length") auto

definition field_of :: "string list \<Rightarrow> string \<Rightarrow> string option" where
  "field_of tags k =
     (if k \<in> set tags then Some k
      else find (\<lambda>tag. foldName tag = foldName k) tags)"

text \<open>
  A number literal as a Go \<^verbatim>\<open>int\<close> (64 bits): \<^verbatim>\<open>strconv.ParseInt\<close> takes an optional
  minus and digits only, and the value has to fit.
\<close>

definition digits_value :: "string \<Rightarrow> int" where
  "digits_value ds = foldl (\<lambda>a c. a * 10 + (int (of_char c) - 48)) 0 ds"

definition int_of_literal :: "string \<Rightarrow> int option" where
  "int_of_literal l =
     (let (neg, ds) = (case l of
                         [] \<Rightarrow> (False, l)
                       | c # r \<Rightarrow> (if c = CHR ''-'' then (True, r) else (False, l)));
          n = (if neg then - digits_value ds else digits_value ds)
      in if ds \<noteq> [] \<and> list_all is_digit ds \<and> - (2 ^ 63) \<le> n \<and> n < 2 ^ 63
         then Some n else None)"

text \<open>
  Decoding into a field of type \<^verbatim>\<open>string\<close> and \<^verbatim>\<open>int\<close>. A JSON \<^verbatim>\<open>null\<close> leaves the
  field as it is.
\<close>

fun decode_string :: "string \<Rightarrow> string \<Rightarrow> json \<Rightarrow> unmarshal_error + string" where
  "decode_string field old JNull = Inr old"
| "decode_string field old (JString s) = Inr s"
| "decode_string field old _ = Inl (UnmarshalTypeError field)"

fun decode_int :: "string \<Rightarrow> int \<Rightarrow> json \<Rightarrow> unmarshal_error + int" where
  "decode_int field old JNull = Inr old"
| "decode_int field old (JNumber l) =
     (case int_of_literal l of None \<Rightarrow> Inl (UnmarshalTypeError field) | Some n \<Rightarrow> Inr n)"
| "decode_int field old _ = Inl (UnmarshalTypeError field)"

text \<open>
  A number that is decoded into an \<^verbatim>\<open>interface{}\<close> becomes the \<^verbatim>\<open>float64\<close> nearest to it
  (\<^verbatim>\<open>strconv.ParseFloat\<close>), and a literal that rounds to no finite \<^verbatim>\<open>float64\<close> is an
  error. The literal is \<open>m\<close> times ten to the \<open>e\<close>, for the digits \<open>m\<close> of its integer part
  and fraction. (The exponent is read in full; the library stops adding digits to it once
  it has passed 10000.)
\<close>

definition literal_exponent :: "string \<Rightarrow> int" where
  "literal_exponent r =
     (case r of
        [] \<Rightarrow> 0
      | e # ds \<Rightarrow>
          (case ds of
             [] \<Rightarrow> 0
           | c # ds' \<Rightarrow>
               (if c = CHR ''-'' then - digits_value ds'
                else if c = CHR ''+'' then digits_value ds'
                else digits_value ds)))"

definition literal_parts :: "string \<Rightarrow> int \<times> int" where
  "literal_parts l =
     (let body = (case l of [] \<Rightarrow> l | c # r \<Rightarrow> (if c = CHR ''-'' then r else l));
          ip = takeWhile is_digit body;
          r1 = dropWhile is_digit body;
          (fp, r2) = (case r1 of
                        [] \<Rightarrow> ([], r1)
                      | c # r \<Rightarrow>
                          (if c = CHR ''.''
                           then (takeWhile is_digit r, dropWhile is_digit r) else ([], r1)))
      in (digits_value (ip @ fp), literal_exponent r2 - int (length fp)))"

text \<open>The number of binary digits of a positive integer.\<close>

function bit_length :: "int \<Rightarrow> nat" where
  "bit_length n = (if n \<le> 0 then 0 else Suc (bit_length (n div 2)))"
  by pat_completeness auto
termination
  by (relation "measure nat") auto

declare bit_length.simps [simp del]

text \<open>\<open>m * 2 ^ e\<close> with an odd \<open>m\<close>, or zero.\<close>

function odd_part :: "int \<Rightarrow> int \<Rightarrow> int \<times> int" where
  "odd_part m e =
     (if m = 0 then (0, 0) else if even m then odd_part (m div 2) (e + 1) else (m, e))"
  by pat_completeness auto
termination
  by (relation "measure (\<lambda>(m, e). nat \<bar>m\<bar>)") auto

declare odd_part.simps [simp del]

text \<open>
  The \<^verbatim>\<open>float64\<close> nearest to the fraction \<open>n / d\<close> of a natural \<open>n\<close> and a positive \<open>d\<close>,
  a tie going to the even significand; \<open>None\<close> when the nearest value is beyond the
  largest \<^verbatim>\<open>float64\<close>. The significand has 53 binary digits, fewer at the exponent -1074 of
  the subnormal numbers; \<open>fl\<close> is the position of the leading binary digit of \<open>n / d\<close>.
\<close>

definition round_float64 :: "int \<Rightarrow> int \<Rightarrow> (int \<times> int) option" where
  "round_float64 n d =
     (if n = 0 then Some (0, 0)
      else
        (let k = int (bit_length n) - int (bit_length d);
             fl = (if (if 0 \<le> k then d * 2 ^ nat k \<le> n else d \<le> n * 2 ^ nat (- k))
                   then k else k - 1);
             e = max (fl - 52) (- 1074);
             n' = (if 0 \<le> e then n else n * 2 ^ nat (- e));
             d' = (if 0 \<le> e then d * 2 ^ nat e else d);
             q = n' div d';
             r = n' mod d';
             m = (if d' < 2 * r \<or> (2 * r = d' \<and> odd q) then q + 1 else q)
         in if 0 \<le> e \<and> 2 ^ 1024 \<le> m * 2 ^ nat e then None else Some (odd_part m e)))"

definition float64_of_literal :: "string \<Rightarrow> json option" where
  "float64_of_literal l =
     (let (m, e) = literal_parts l
      in case round_float64 (if 0 \<le> e then m * 10 ^ nat e else m)
                (if 0 \<le> e then 1 else 10 ^ nat (- e)) of
           None \<Rightarrow> None
         | Some (fm, fe) \<Rightarrow> Some (JFloat (take 1 l = ''-'') fm fe))"

text \<open>
  A JSON value as a Go value in an \<^verbatim>\<open>interface{}\<close>: the numbers become \<^verbatim>\<open>float64\<close>, and an
  object becomes a map, in which the last of the members with one key stays. (The members
  of the map keep the order in which they were written; a Go map has none.)
\<close>

fun last_wins :: "(string \<times> 'a) list \<Rightarrow> (string \<times> 'a) list" where
  "last_wins [] = []"
| "last_wins (m # ms) = (if fst m \<in> fst ` set ms then last_wins ms else m # last_wins ms)"

fun to_interface :: "json \<Rightarrow> json option" where
  "to_interface (JNumber l) = float64_of_literal l"
| "to_interface (JArray xs) = map_option JArray (those (map to_interface xs))"
| "to_interface (JObject ms) =
     map_option (\<lambda>vs. JObject (last_wins (zip (map fst ms) vs)))
       (those (map to_interface (map snd ms)))"
| "to_interface v = Some v"

definition decode_any :: "string \<Rightarrow> json \<Rightarrow> unmarshal_error + json option" where
  "decode_any field v =
     (if v = JNull then Inr None
      else
        (case to_interface v of
           None \<Rightarrow> Inl (UnmarshalTypeError field)
         | Some w \<Rightarrow> Inr (Some w)))"

text \<open>
  The members of an object are decoded in the order they are written, so the last of two
  members that name one field wins; the first error ends the decoding.
\<close>

fun decode_members ::
  "('a \<Rightarrow> string \<times> json \<Rightarrow> unmarshal_error + 'a) \<Rightarrow> 'a \<Rightarrow> (string \<times> json) list
     \<Rightarrow> unmarshal_error + 'a" where
  "decode_members f a [] = Inr a"
| "decode_members f a (m # ms) =
     (case f a m of Inl e \<Rightarrow> Inl e | Inr a' \<Rightarrow> decode_members f a' ms)"

text \<open>
  Decoding into a struct: \<^verbatim>\<open>null\<close> leaves it as it is, an object sets its fields, any
  other value does not fit.
\<close>

fun decode_struct ::
  "('a \<Rightarrow> string \<times> json \<Rightarrow> unmarshal_error + 'a) \<Rightarrow> 'a \<Rightarrow> json \<Rightarrow> unmarshal_error + 'a" where
  "decode_struct f a JNull = Inr a"
| "decode_struct f a (JObject ms) = decode_members f a ms"
| "decode_struct f a _ = Inl (UnmarshalTypeError [])"

section \<open>The JSON-RPC envelope\<close>

record JSONRPCRequest =
  req_JSONRPC :: string
  req_Method :: string
  req_Params :: "json option"
  req_ID :: "json option"

record JSONRPCError =
  err_Code :: int
  err_Message :: string
  err_Data :: "json option"

text \<open>The result of a response is any Go value; \<open>'r\<close> is its type and \<open>None\<close> is \<^verbatim>\<open>nil\<close>.\<close>

record 'r JSONRPCResponse =
  resp_JSONRPC :: string
  resp_Result :: "'r option"
  resp_Error :: "JSONRPCError option"
  resp_ID :: "json option"

definition JSONRPCErrorParseError :: int where "JSONRPCErrorParseError = - 32700"
definition JSONRPCErrorInvalidRequest :: int where "JSONRPCErrorInvalidRequest = - 32600"
definition JSONRPCErrorMethodNotFound :: int where "JSONRPCErrorMethodNotFound = - 32601"
definition JSONRPCErrorInvalidParams :: int where "JSONRPCErrorInvalidParams = - 32602"
definition JSONRPCErrorInternalError :: int where "JSONRPCErrorInternalError = - 32603"
definition JSONRPCErrorServerError :: int where "JSONRPCErrorServerError = - 32000"

definition apostrophe :: string where
  "apostrophe = [CHR 0x27]"

text \<open>The validators return the error text, \<open>None\<close> for Go's \<^verbatim>\<open>nil\<close> error.\<close>

definition ValidateJSONRPCRequest :: "JSONRPCRequest \<Rightarrow> string option" where
  "ValidateJSONRPCRequest req =
     (if req_JSONRPC req \<noteq> ''2.0''
        then Some (''jsonrpc must be '' @ apostrophe @ ''2.0'' @ apostrophe)
      else if req_Method req = [] then Some ''method is required''
      else if req_ID req = None then Some ''id is required''
      else None)"

definition ValidateJSONRPCResponse :: "'r JSONRPCResponse \<Rightarrow> string option" where
  "ValidateJSONRPCResponse resp =
     (if resp_JSONRPC resp \<noteq> ''2.0''
        then Some (''jsonrpc must be '' @ apostrophe @ ''2.0'' @ apostrophe)
      else
        (let hasResult = (resp_Result resp \<noteq> None);
             hasError = (resp_Error resp \<noteq> None)
         in if hasResult \<and> hasError then Some ''response cannot have both result and error''
            else if \<not> hasResult \<and> \<not> hasError
              then Some ''response must have either result or error''
            else None))"

definition NewJSONRPCRequest :: "string \<Rightarrow> json option \<Rightarrow> json option \<Rightarrow> JSONRPCRequest" where
  "NewJSONRPCRequest method params rid =
     \<lparr>req_JSONRPC = ''2.0'', req_Method = method, req_Params = params, req_ID = rid\<rparr>"

definition NewJSONRPCResponse :: "'r option \<Rightarrow> json option \<Rightarrow> 'r JSONRPCResponse" where
  "NewJSONRPCResponse result rid =
     \<lparr>resp_JSONRPC = ''2.0'', resp_Result = result, resp_Error = None, resp_ID = rid\<rparr>"

definition NewJSONRPCErrorResponse ::
  "int \<Rightarrow> string \<Rightarrow> json option \<Rightarrow> json option \<Rightarrow> 'r JSONRPCResponse" where
  "NewJSONRPCErrorResponse code message data rid =
     \<lparr>resp_JSONRPC = ''2.0'', resp_Result = None,
      resp_Error = Some \<lparr>err_Code = code, err_Message = message, err_Data = data\<rparr>,
      resp_ID = rid\<rparr>"

definition NewJSONRPCParseError :: "string \<Rightarrow> JSONRPCError" where
  "NewJSONRPCParseError message =
     \<lparr>err_Code = JSONRPCErrorParseError, err_Message = ''Parse error'',
      err_Data = Some (JString message)\<rparr>"

definition NewJSONRPCInvalidRequestError :: "string \<Rightarrow> JSONRPCError" where
  "NewJSONRPCInvalidRequestError message =
     \<lparr>err_Code = JSONRPCErrorInvalidRequest, err_Message = ''Invalid Request'',
      err_Data = Some (JString message)\<rparr>"

definition NewJSONRPCMethodNotFoundError :: "string \<Rightarrow> JSONRPCError" where
  "NewJSONRPCMethodNotFoundError method =
     \<lparr>err_Code = JSONRPCErrorMethodNotFound, err_Message = ''Method not found'',
      err_Data = Some (JString (''method '' @ apostrophe @ method @ apostrophe @ '' not found''))\<rparr>"

definition NewJSONRPCInvalidParamsError :: "string \<Rightarrow> JSONRPCError" where
  "NewJSONRPCInvalidParamsError message =
     \<lparr>err_Code = JSONRPCErrorInvalidParams, err_Message = ''Invalid params'',
      err_Data = Some (JString message)\<rparr>"

definition NewJSONRPCInternalError :: "string \<Rightarrow> JSONRPCError" where
  "NewJSONRPCInternalError message =
     \<lparr>err_Code = JSONRPCErrorInternalError, err_Message = ''Internal error'',
      err_Data = Some (JString message)\<rparr>"

definition NewJSONRPCServerError :: "int \<Rightarrow> string \<Rightarrow> json option \<Rightarrow> JSONRPCError" where
  "NewJSONRPCServerError code message data =
     \<lparr>err_Code = (if code > - 32000 \<or> code < - 32099 then JSONRPCErrorServerError else code),
      err_Message = message, err_Data = data\<rparr>"

subsection \<open>Decoding the envelope\<close>

text \<open>
  \<^verbatim>\<open>json.Unmarshal(data, &req)\<close> into a zero \<^verbatim>\<open>JSONRPCRequest\<close>. Go returns the partly
  set struct together with the error; every caller drops it, and so does the sum.
\<close>

definition request_tags :: "string list" where
  "request_tags = [''jsonrpc'', ''method'', ''params'', ''id'']"

definition set_request_field ::
  "JSONRPCRequest \<Rightarrow> string \<times> json \<Rightarrow> unmarshal_error + JSONRPCRequest" where
  "set_request_field req m =
     (case field_of request_tags (fst m) of
        None \<Rightarrow> Inr req
      | Some f \<Rightarrow>
          (if f = ''jsonrpc'' then
             (case decode_string f (req_JSONRPC req) (snd m) of
                Inl e \<Rightarrow> Inl e | Inr s \<Rightarrow> Inr (req\<lparr>req_JSONRPC := s\<rparr>))
           else if f = ''method'' then
             (case decode_string f (req_Method req) (snd m) of
                Inl e \<Rightarrow> Inl e | Inr s \<Rightarrow> Inr (req\<lparr>req_Method := s\<rparr>))
           else if f = ''params'' then
             (case decode_any f (snd m) of
                Inl e \<Rightarrow> Inl e | Inr v \<Rightarrow> Inr (req\<lparr>req_Params := v\<rparr>))
           else
             (case decode_any f (snd m) of
                Inl e \<Rightarrow> Inl e | Inr v \<Rightarrow> Inr (req\<lparr>req_ID := v\<rparr>))))"

definition zero_request :: JSONRPCRequest where
  "zero_request = \<lparr>req_JSONRPC = [], req_Method = [], req_Params = None, req_ID = None\<rparr>"

definition Unmarshal_request :: "string \<Rightarrow> unmarshal_error + JSONRPCRequest" where
  "Unmarshal_request data =
     (case json_parse data of
        None \<Rightarrow> Inl SyntaxError
      | Some v \<Rightarrow> decode_struct set_request_field zero_request v)"

definition error_tags :: "string list" where
  "error_tags = [''code'', ''message'', ''data'']"

definition set_error_field ::
  "JSONRPCError \<Rightarrow> string \<times> json \<Rightarrow> unmarshal_error + JSONRPCError" where
  "set_error_field e m =
     (case field_of error_tags (fst m) of
        None \<Rightarrow> Inr e
      | Some f \<Rightarrow>
          (if f = ''code'' then
             (case decode_int f (err_Code e) (snd m) of
                Inl x \<Rightarrow> Inl x | Inr n \<Rightarrow> Inr (e\<lparr>err_Code := n\<rparr>))
           else if f = ''message'' then
             (case decode_string f (err_Message e) (snd m) of
                Inl x \<Rightarrow> Inl x | Inr s \<Rightarrow> Inr (e\<lparr>err_Message := s\<rparr>))
           else
             (case decode_any f (snd m) of
                Inl x \<Rightarrow> Inl x | Inr v \<Rightarrow> Inr (e\<lparr>err_Data := v\<rparr>))))"

definition zero_error :: JSONRPCError where
  "zero_error = \<lparr>err_Code = 0, err_Message = [], err_Data = None\<rparr>"

text \<open>
  The field \<^verbatim>\<open>Error *JSONRPCError\<close>: \<^verbatim>\<open>null\<close> sets the pointer to \<^verbatim>\<open>nil\<close>, an object is decoded
  into the struct the pointer has, a new zero one when it is \<^verbatim>\<open>nil\<close>.
\<close>

fun decode_error_ptr :: "JSONRPCError option \<Rightarrow> json \<Rightarrow> unmarshal_error + JSONRPCError option" where
  "decode_error_ptr old JNull = Inr None"
| "decode_error_ptr old (JObject ms) =
     (case decode_members set_error_field (case old of None \<Rightarrow> zero_error | Some e \<Rightarrow> e) ms of
        Inl x \<Rightarrow> Inl x | Inr e \<Rightarrow> Inr (Some e))"
| "decode_error_ptr old _ = Inl (UnmarshalTypeError ''error'')"

definition response_tags :: "string list" where
  "response_tags = [''jsonrpc'', ''result'', ''error'', ''id'']"

definition set_response_field ::
  "json JSONRPCResponse \<Rightarrow> string \<times> json \<Rightarrow> unmarshal_error + json JSONRPCResponse" where
  "set_response_field resp m =
     (case field_of response_tags (fst m) of
        None \<Rightarrow> Inr resp
      | Some f \<Rightarrow>
          (if f = ''jsonrpc'' then
             (case decode_string f (resp_JSONRPC resp) (snd m) of
                Inl e \<Rightarrow> Inl e | Inr s \<Rightarrow> Inr (resp\<lparr>resp_JSONRPC := s\<rparr>))
           else if f = ''result'' then
             (case decode_any f (snd m) of
                Inl e \<Rightarrow> Inl e | Inr v \<Rightarrow> Inr (resp\<lparr>resp_Result := v\<rparr>))
           else if f = ''error'' then
             (case decode_error_ptr (resp_Error resp) (snd m) of
                Inl e \<Rightarrow> Inl e | Inr p \<Rightarrow> Inr (resp\<lparr>resp_Error := p\<rparr>))
           else
             (case decode_any f (snd m) of
                Inl e \<Rightarrow> Inl e | Inr v \<Rightarrow> Inr (resp\<lparr>resp_ID := v\<rparr>))))"

definition zero_response :: "json JSONRPCResponse" where
  "zero_response = \<lparr>resp_JSONRPC = [], resp_Result = None, resp_Error = None, resp_ID = None\<rparr>"

definition Unmarshal_response :: "string \<Rightarrow> unmarshal_error + json JSONRPCResponse" where
  "Unmarshal_response data =
     (case json_parse data of
        None \<Rightarrow> Inl SyntaxError
      | Some v \<Rightarrow> decode_struct set_response_field zero_response v)"

text \<open>
  The text of a library error is not part of the program: \<open>errtext\<close> stands for
  \<^verbatim>\<open>fmt.Sprintf("%v", err)\<close>.
\<close>

definition ParseJSONRPCRequest ::
  "(unmarshal_error \<Rightarrow> string) \<Rightarrow> string \<Rightarrow> JSONRPCError + JSONRPCRequest" where
  "ParseJSONRPCRequest errtext data =
     (if length data = 0 then Inl (NewJSONRPCParseError ''empty request body'')
      else
        (case Unmarshal_request data of
           Inl err \<Rightarrow> Inl (NewJSONRPCParseError (''invalid JSON: '' @ errtext err))
         | Inr req \<Rightarrow>
             (case ValidateJSONRPCRequest req of
                Some msg \<Rightarrow> Inl (NewJSONRPCInvalidRequestError msg)
              | None \<Rightarrow> Inr req)))"

definition ParseJSONRPCResponse ::
  "(unmarshal_error \<Rightarrow> string) \<Rightarrow> string \<Rightarrow> JSONRPCError + json JSONRPCResponse" where
  "ParseJSONRPCResponse errtext data =
     (if length data = 0 then Inl (NewJSONRPCParseError ''empty response body'')
      else
        (case Unmarshal_response data of
           Inl err \<Rightarrow> Inl (NewJSONRPCParseError (''invalid JSON: '' @ errtext err))
         | Inr resp \<Rightarrow>
             (case ValidateJSONRPCResponse resp of
                Some msg \<Rightarrow> Inl (NewJSONRPCInvalidRequestError msg)
              | None \<Rightarrow> Inr resp)))"

text \<open>
  \<^verbatim>\<open>json.Marshal\<close> is the parameter \<open>marshal\<close>: the bytes, or the text of its error.
\<close>

definition SerializeJSONRPCRequest ::
  "(JSONRPCRequest \<Rightarrow> string + string) \<Rightarrow> JSONRPCRequest \<Rightarrow> JSONRPCError + string" where
  "SerializeJSONRPCRequest marshal req =
     (case ValidateJSONRPCRequest req of
        Some msg \<Rightarrow> Inl (NewJSONRPCInvalidRequestError msg)
      | None \<Rightarrow>
          (case marshal req of
             Inl err \<Rightarrow> Inl (NewJSONRPCInternalError (''failed to serialize request: '' @ err))
           | Inr data \<Rightarrow> Inr data))"

definition SerializeJSONRPCResponse ::
  "('r JSONRPCResponse \<Rightarrow> string + string) \<Rightarrow> 'r JSONRPCResponse \<Rightarrow> JSONRPCError + string" where
  "SerializeJSONRPCResponse marshal resp =
     (case ValidateJSONRPCResponse resp of
        Some msg \<Rightarrow> Inl (NewJSONRPCInvalidRequestError msg)
      | None \<Rightarrow>
          (case marshal resp of
             Inl err \<Rightarrow> Inl (NewJSONRPCInternalError (''failed to serialize response: '' @ err))
           | Inr data \<Rightarrow> Inr data))"




section \<open>Tasks, events and the storage ports\<close>

text \<open>
  The task types are those of the A2A SDK; a record has the fields the program reads or
  writes. A pointer is an \<open>option\<close>, a time is the value of its \<^verbatim>\<open>UnixNano()\<close>.
\<close>

type_synonym TaskID = string
type_synonym Time = int

datatype TaskState =
    TaskStateSubmitted
  | TaskStateWorking
  | TaskStateInputRequired
  | TaskStateCompleted
  | TaskStateCanceled
  | TaskStateFailed
  | TaskStateRejected
  | TaskStateAuthRequired
  | TaskStateUnknown

record TaskStatus =
  State :: TaskState
  Timestamp :: "Time option"

record Message =
  msg_MessageID :: string
  msg_TaskID :: "TaskID option"
  msg_Role :: string
  msg_Parts :: "json list"

record Task =
  task_ID :: TaskID
  task_ContextID :: string
  task_Kind :: string
  task_History :: "Message list"
  task_Status :: TaskStatus
  task_Metadata :: "string \<rightharpoonup> json"

record TaskStatusUpdateEvent =
  ev_Kind :: string
  ev_TaskID :: TaskID
  ev_ContextID :: string
  ev_Status :: TaskStatus
  ev_Final :: bool

datatype Event =
    StatusUpdateEvent TaskStatusUpdateEvent
  | MessageEvent Message

record PushConfig =
  push_URL :: string

record TaskQueryParams =
  query_ID :: TaskID
  query_HistoryLength :: "int option"

record TaskIDParams =
  cancel_ID :: TaskID

record MessageSendParams =
  send_Message :: Message

text \<open>
  The handler reaches its stores through three interfaces. A method is a function of the
  state \<open>'s\<close> of the world behind the interfaces: it returns its result and the new state.
  A Go \<^verbatim>\<open>error\<close> is its text, \<open>None\<close> for \<^verbatim>\<open>nil\<close>.
\<close>

record 's TaskStore =
  GetTask :: "TaskID \<Rightarrow> 's \<Rightarrow> (string + Task) \<times> 's"
  SaveTask :: "Task \<Rightarrow> 's \<Rightarrow> string option \<times> 's"

record 's EventStore =
  SaveEvent :: "Event \<Rightarrow> 's \<Rightarrow> string option \<times> 's"

record 's PushNotifier =
  SendNotification :: "PushConfig \<Rightarrow> Event \<Rightarrow> 's \<Rightarrow> string option \<times> 's"

record 's ServerlessA2AHandler =
  taskStore :: "'s TaskStore"
  eventStore :: "'s EventStore"
  pushNotifier :: "'s PushNotifier"

definition NewServerlessA2AHandler ::
  "'s TaskStore \<Rightarrow> 's EventStore \<Rightarrow> 's PushNotifier \<Rightarrow> 's ServerlessA2AHandler" where
  "NewServerlessA2AHandler ts es pn = \<lparr>taskStore = ts, eventStore = es, pushNotifier = pn\<rparr>"

text \<open>\<^verbatim>\<open>fmt.Sprintf("%d", n)\<close>: the decimal digits of an integer.\<close>

function show_nat :: "nat \<Rightarrow> string" where
  "show_nat n =
     (if n < 10 then [char_of (48 + n)] else show_nat (n div 10) @ [char_of (48 + n mod 10)])"
  by pat_completeness auto
termination
  by (relation "measure (\<lambda>n. n)") auto

declare show_nat.simps [simp del]

definition show_int :: "int \<Rightarrow> string" where
  "show_int i = (if i < 0 then CHR ''-'' # show_nat (nat (- i)) else show_nat (nat i))"

section \<open>The request handler\<close>

text \<open>
  \<^verbatim>\<open>OnGetTask\<close>. The history of the task that is returned is the slice
  \<^verbatim>\<open>task.History[len(task.History)-historyLen:]\<close> when a positive limit is below the length.
\<close>

definition OnGetTask ::
  "'s ServerlessA2AHandler \<Rightarrow> TaskQueryParams \<Rightarrow> 's \<Rightarrow> (string + Task) \<times> 's" where
  "OnGetTask h query s =
     (case GetTask (taskStore h) (query_ID query) s of
        (Inl err, s1) \<Rightarrow> (Inl (''failed to get task '' @ query_ID query @ '': '' @ err), s1)
      | (Inr task, s1) \<Rightarrow>
          (case query_HistoryLength query of
             None \<Rightarrow> (Inr task, s1)
           | Some historyLen \<Rightarrow>
               (if historyLen > 0 \<and> int (length (task_History task)) > historyLen
                then (Inr (task\<lparr>task_History :=
                        drop (length (task_History task) - nat historyLen) (task_History task)\<rparr>), s1)
                else (Inr task, s1))))"

text \<open>
  \<^verbatim>\<open>OnCancelTask\<close>; \<open>now\<close> is what \<^verbatim>\<open>time.Now()\<close> returns. A failure of \<^verbatim>\<open>SaveEvent\<close> is
  printed and the task is returned all the same.
\<close>

definition OnCancelTask ::
  "'s ServerlessA2AHandler \<Rightarrow> Time \<Rightarrow> TaskIDParams \<Rightarrow> 's \<Rightarrow> (string + Task) \<times> 's" where
  "OnCancelTask h now p s =
     (case GetTask (taskStore h) (cancel_ID p) s of
        (Inl err, s1) \<Rightarrow> (Inl (''failed to get task '' @ cancel_ID p @ '': '' @ err), s1)
      | (Inr task0, s1) \<Rightarrow>
          (let task = task0\<lparr>task_Status := \<lparr>State = TaskStateCanceled, Timestamp = Some now\<rparr>\<rparr>
           in case SaveTask (taskStore h) task s1 of
                (Some err, s2) \<Rightarrow>
                  (Inl (''failed to save canceled task '' @ cancel_ID p @ '': '' @ err), s2)
              | (None, s2) \<Rightarrow>
                  (let statusEvent =
                         \<lparr>ev_Kind = ''status-update'', ev_TaskID = task_ID task,
                          ev_ContextID = task_ContextID task, ev_Status = task_Status task,
                          ev_Final = True\<rparr>
                   in case SaveEvent (eventStore h) (StatusUpdateEvent statusEvent) s2 of
                        (err, s3) \<Rightarrow> (Inr task, s3))))"

definition generateContextID :: "Time \<Rightarrow> string" where
  "generateContextID now = ''ctx_'' @ show_int now"

text \<open>
  \<^verbatim>\<open>OnSendMessage\<close>; \<open>clock n\<close> is what the call of \<^verbatim>\<open>time.Now()\<close> number \<open>n\<close> of this
  request returns. A new task takes two readings, for its id and status and for its
  context id, before the reading for the status \<^verbatim>\<open>working\<close>; \<open>newTask\<close> is the struct
  literal of the branch that creates it.
\<close>

definition newTask :: "Time \<Rightarrow> Time \<Rightarrow> Task" where
  "newTask now ctxnow =
     \<lparr>task_ID = ''task_'' @ show_int now,
      task_ContextID = generateContextID ctxnow,
      task_Kind = ''task'',
      task_History = [],
      task_Status = \<lparr>State = TaskStateSubmitted, Timestamp = Some now\<rparr>,
      task_Metadata = Map.empty\<rparr>"

definition OnSendMessage ::
  "'s ServerlessA2AHandler \<Rightarrow> (nat \<Rightarrow> Time) \<Rightarrow> MessageSendParams \<Rightarrow> 's \<Rightarrow> (string + Task) \<times> 's" where
  "OnSendMessage h clock message s =
     (let loaded =
            (case msg_TaskID (send_Message message) of
               Some tid \<Rightarrow>
                 (case GetTask (taskStore h) tid s of
                    (Inl err, s1) \<Rightarrow>
                      (Inl (''failed to get existing task '' @ tid @ '': '' @ err), s1)
                  | (Inr task, s1) \<Rightarrow> (Inr (task, clock 0), s1))
             | None \<Rightarrow>
                 (Inr (newTask (clock 0) (clock 1), clock 2), s))
      in case loaded of
           (Inl err, s1) \<Rightarrow> (Inl err, s1)
         | (Inr (task0, now), s1) \<Rightarrow>
             (let task = task0\<lparr>task_History := task_History task0 @ [send_Message message],
                               task_Status := \<lparr>State = TaskStateWorking, Timestamp = Some now\<rparr>\<rparr>
              in case SaveTask (taskStore h) task s1 of
                   (Some err, s2) \<Rightarrow> (Inl (''failed to save task: '' @ err), s2)
                 | (None, s2) \<Rightarrow> (Inr task, s2)))"

subsection \<open>Stores in memory\<close>

text \<open>
  An implementation of the three interfaces that keeps everything in memory: a table of
  tasks by id, the list of the events saved and the list of the notifications sent. A flag
  says whether the writes of a store succeed.
\<close>

record World =
  tasks :: "TaskID \<rightharpoonup> Task"
  events :: "Event list"
  sent :: "(PushConfig \<times> Event) list"

definition memTaskStore :: "bool \<Rightarrow> World TaskStore" where
  "memTaskStore ok =
     \<lparr>GetTask = (\<lambda>tid w.
        (case tasks w tid of
           None \<Rightarrow> (Inl (''task '' @ tid @ '' not found''), w)
         | Some t \<Rightarrow> (Inr t, w))),
      SaveTask = (\<lambda>t w.
        if ok then (None, w\<lparr>tasks := (tasks w)(task_ID t \<mapsto> t)\<rparr>)
        else (Some ''task store unavailable'', w))\<rparr>"

definition memEventStore :: "bool \<Rightarrow> World EventStore" where
  "memEventStore ok =
     \<lparr>SaveEvent = (\<lambda>e w.
        if ok then (None, w\<lparr>events := events w @ [e]\<rparr>)
        else (Some ''event store unavailable'', w))\<rparr>"

definition memPushNotifier :: "bool \<Rightarrow> World PushNotifier" where
  "memPushNotifier ok =
     \<lparr>SendNotification = (\<lambda>c e w.
        if ok then (None, w\<lparr>sent := sent w @ [(c, e)]\<rparr>)
        else (Some ''queue unavailable'', w))\<rparr>"

definition memHandler :: "bool \<Rightarrow> bool \<Rightarrow> bool \<Rightarrow> World ServerlessA2AHandler" where
  "memHandler task_ok event_ok push_ok =
     NewServerlessA2AHandler (memTaskStore task_ok) (memEventStore event_ok)
       (memPushNotifier push_ok)"

text \<open>A stored task with five messages, in a world that holds nothing else.\<close>

definition example_message :: "string \<Rightarrow> Message" where
  "example_message mid =
     \<lparr>msg_MessageID = mid, msg_TaskID = Some ''t1'', msg_Role = ''user'', msg_Parts = []\<rparr>"

definition example_task :: Task where
  "example_task =
     \<lparr>task_ID = ''t1'', task_ContextID = ''c1'', task_Kind = ''task'',
      task_History = map example_message [''m1'', ''m2'', ''m3'', ''m4'', ''m5''],
      task_Status = \<lparr>State = TaskStateWorking, Timestamp = Some 100\<rparr>,
      task_Metadata = Map.empty\<rparr>"

definition example_world :: World where
  "example_world = \<lparr>tasks = [''t1'' \<mapsto> example_task], events = [], sent = []\<rparr>"

section \<open>The router\<close>




















section \<open>Properties of the codec\<close>

text \<open>
  C8. For every integer code, \<^verbatim>\<open>NewJSONRPCServerError\<close> returns an error whose code lies in
  the closed range from -32099 to -32000: a code inside the range is kept, a code outside it
  is replaced by -32000; the message and the data are the ones supplied.
\<close>

theorem NewJSONRPCServerError_clamps:
  "- 32099 \<le> err_Code (NewJSONRPCServerError code message data)
   \<and> err_Code (NewJSONRPCServerError code message data) \<le> - 32000
   \<and> err_Code (NewJSONRPCServerError code message data)
       = (if - 32099 \<le> code \<and> code \<le> - 32000 then code else - 32000)
   \<and> err_Message (NewJSONRPCServerError code message data) = message
   \<and> err_Data (NewJSONRPCServerError code message data) = data"
  by (simp add: NewJSONRPCServerError_def JSONRPCErrorServerError_def)

theorem NewJSONRPCServerError_clamps_witness:
  "err_Code (NewJSONRPCServerError (- 32001) ''test message'' None) = - 32001
   \<and> err_Code (NewJSONRPCServerError (- 1000) ''test message'' None) = - 32000
   \<and> err_Code (NewJSONRPCServerError (- 32100) ''m'' (Some (JString ''d''))) = - 32000
   \<and> err_Message (NewJSONRPCServerError (- 32100) ''m'' (Some (JString ''d''))) = ''m''
   \<and> err_Data (NewJSONRPCServerError (- 32100) ''m'' (Some (JString ''d''))) = Some (JString ''d'')"
  using NewJSONRPCServerError_clamps [of "- 32001" "''test message''" None]
    NewJSONRPCServerError_clamps [of "- 1000" "''test message''" None]
    NewJSONRPCServerError_clamps [of "- 32100" "''m''" "Some (JString ''d'')"]
  by simp

lemma ValidateJSONRPCResponse_None:
  "(ValidateJSONRPCResponse resp = None) =
     (resp_JSONRPC resp = ''2.0'' \<and> ((resp_Result resp = None) \<noteq> (resp_Error resp = None)))"
  by (auto simp: ValidateJSONRPCResponse_def Let_def)

lemma InvalidRequest_code: "err_Code (NewJSONRPCInvalidRequestError msg) = - 32600"
  by (simp add: NewJSONRPCInvalidRequestError_def JSONRPCErrorInvalidRequest_def)

lemma ParseError_code: "err_Code (NewJSONRPCParseError msg) = - 32700"
  by (simp add: NewJSONRPCParseError_def JSONRPCErrorParseError_def)

lemma SerializeJSONRPCResponse_invalid:
  assumes "ValidateJSONRPCResponse resp \<noteq> None"
  shows "\<exists>e. SerializeJSONRPCResponse marshal resp = Inl e \<and> err_Code e = - 32600"
proof -
  from assms obtain msg where "ValidateJSONRPCResponse resp = Some msg" by auto
  then have "SerializeJSONRPCResponse marshal resp = Inl (NewJSONRPCInvalidRequestError msg)"
    by (simp add: SerializeJSONRPCResponse_def)
  then show ?thesis using InvalidRequest_code by blast
qed

lemma ParseJSONRPCResponse_invalid:
  assumes "data \<noteq> []" and "Unmarshal_response data = Inr r"
    and "ValidateJSONRPCResponse r \<noteq> None"
  shows "\<exists>e. ParseJSONRPCResponse errtext data = Inl e \<and> err_Code e = - 32600"
proof -
  from assms(3) obtain msg where "ValidateJSONRPCResponse r = Some msg" by auto
  with assms(1,2)
  have "ParseJSONRPCResponse errtext data = Inl (NewJSONRPCInvalidRequestError msg)"
    by (simp add: ParseJSONRPCResponse_def)
  then show ?thesis using InvalidRequest_code by blast
qed

lemma ParseJSONRPCResponse_valid:
  "ParseJSONRPCResponse errtext data = Inr r \<Longrightarrow> ValidateJSONRPCResponse r = None"
  by (auto simp: ParseJSONRPCResponse_def split: if_splits sum.splits option.splits)

lemma SerializeJSONRPCResponse_valid:
  "SerializeJSONRPCResponse marshal resp = Inr bytes \<Longrightarrow> ValidateJSONRPCResponse resp = None"
  by (auto simp: SerializeJSONRPCResponse_def split: sum.splits option.splits)

text \<open>
  C1. A response is valid exactly when its version is \<^verbatim>\<open>2.0\<close> and exactly one of result and
  error is set. \<^verbatim>\<open>SerializeJSONRPCResponse\<close> and \<^verbatim>\<open>ParseJSONRPCResponse\<close> fail with
  InvalidRequest (code -32600) on a response the validator rejects, and what they return has
  passed the validator. \<^verbatim>\<open>NewJSONRPCErrorResponse\<close> always builds a valid response;
  \<^verbatim>\<open>NewJSONRPCResponse\<close> builds a valid one exactly when the result it is given is not
  \<^verbatim>\<open>nil\<close>: the constructors do not validate.
\<close>

theorem JSONRPCResponse_cardinality:
  fixes resp :: "'r JSONRPCResponse" and result :: "'r option"
  shows
  "((ValidateJSONRPCResponse resp = None) =
      (resp_JSONRPC resp = ''2.0'' \<and> ((resp_Result resp = None) \<noteq> (resp_Error resp = None))))
   \<and> (ValidateJSONRPCResponse resp \<noteq> None \<longrightarrow>
        (\<exists>e. SerializeJSONRPCResponse marshal resp = Inl e \<and> err_Code e = - 32600))
   \<and> (SerializeJSONRPCResponse marshal resp = Inr bytes \<longrightarrow> ValidateJSONRPCResponse resp = None)
   \<and> (data \<noteq> [] \<and> Unmarshal_response data = Inr r \<and> ValidateJSONRPCResponse r \<noteq> None \<longrightarrow>
        (\<exists>e. ParseJSONRPCResponse errtext data = Inl e \<and> err_Code e = - 32600))
   \<and> (ParseJSONRPCResponse errtext data = Inr r \<longrightarrow> ValidateJSONRPCResponse r = None)
   \<and> ValidateJSONRPCResponse
        (NewJSONRPCErrorResponse code message d rid :: 'r JSONRPCResponse) = None
   \<and> ((ValidateJSONRPCResponse (NewJSONRPCResponse result rid) = None) = (result \<noteq> None))"
proof -
  have ctor_err: "ValidateJSONRPCResponse
      (NewJSONRPCErrorResponse code message d rid :: 'r JSONRPCResponse) = None"
    by (simp add: ValidateJSONRPCResponse_None NewJSONRPCErrorResponse_def)
  have ctor_ok: "(ValidateJSONRPCResponse (NewJSONRPCResponse result rid) = None) = (result \<noteq> None)"
    by (simp add: ValidateJSONRPCResponse_None NewJSONRPCResponse_def)
  show ?thesis
    using ValidateJSONRPCResponse_None [of resp]
      SerializeJSONRPCResponse_invalid [of resp marshal]
      SerializeJSONRPCResponse_valid [of marshal resp bytes]
      ParseJSONRPCResponse_invalid [of data r errtext]
      ParseJSONRPCResponse_valid [of errtext data r]
      ctor_err ctor_ok
    by blast
qed

theorem JSONRPCResponse_cardinality_witness:
  "ValidateJSONRPCResponse
      \<lparr>resp_JSONRPC = ''2.0'', resp_Result = Some (JString ''ok''),
       resp_Error = Some \<lparr>err_Code = - 32601, err_Message = ''Method not found'', err_Data = None\<rparr>,
       resp_ID = Some (JNumber ''1'')\<rparr> \<noteq> None
   \<and> (\<exists>e. SerializeJSONRPCResponse (\<lambda>x. Inr [])
             \<lparr>resp_JSONRPC = ''2.0'', resp_Result = Some (JString ''ok''),
              resp_Error = Some \<lparr>err_Code = - 32601, err_Message = ''Method not found'',
                err_Data = None\<rparr>,
              resp_ID = Some (JNumber ''1'')\<rparr> = Inl e \<and> err_Code e = - 32600)
   \<and> (\<exists>e. ParseJSONRPCResponse (\<lambda>x. []) ''{\"jsonrpc\":\"2.0\",\"id\":1}'' = Inl e
          \<and> err_Code e = - 32600)
   \<and> ValidateJSONRPCResponse
        (NewJSONRPCErrorResponse (- 32600) ''Invalid Request'' None (Some (JNumber ''1''))
          :: json JSONRPCResponse) = None
   \<and> ValidateJSONRPCResponse
        (NewJSONRPCResponse (Some (JString ''ok'')) (Some (JNumber ''1''))) = None"
proof -
  let ?both = "\<lparr>resp_JSONRPC = ''2.0'', resp_Result = Some (JString ''ok''),
       resp_Error = Some \<lparr>err_Code = - 32601, err_Message = ''Method not found'', err_Data = None\<rparr>,
       resp_ID = Some (JNumber ''1'')\<rparr>"
  let ?neither = "\<lparr>resp_JSONRPC = ''2.0'', resp_Result = None :: json option,
       resp_Error = None, resp_ID = Some (JFloat False 1 0)\<rparr>"
  have both: "ValidateJSONRPCResponse ?both \<noteq> None"
    by (simp add: ValidateJSONRPCResponse_def)
  have dec: "Unmarshal_response ''{\"jsonrpc\":\"2.0\",\"id\":1}'' = Inr ?neither"
    by code_simp
  have neither: "ValidateJSONRPCResponse ?neither \<noteq> None"
    by (simp add: ValidateJSONRPCResponse_def)
  have nonempty: "''{\"jsonrpc\":\"2.0\",\"id\":1}'' \<noteq> []"
    by simp
  show ?thesis
    using both dec neither nonempty
      JSONRPCResponse_cardinality [of ?both "\<lambda>x. Inr []" "[]"
        "''{\"jsonrpc\":\"2.0\",\"id\":1}''" ?neither "\<lambda>x. []"
        "- 32600" "''Invalid Request''" None "Some (JNumber ''1'')" "Some (JString ''ok'')"]
    by simp
qed

text \<open>
  \<^verbatim>\<open>NewJSONRPCResponse(nil, 1)\<close> has neither a result nor an error, and the validator
  rejects it.
\<close>

theorem NewJSONRPCResponse_nil_counterexample:
  "resp_Result (NewJSONRPCResponse (None :: json option) (Some (JNumber ''1''))) = None
   \<and> resp_Error (NewJSONRPCResponse (None :: json option) (Some (JNumber ''1''))) = None
   \<and> ValidateJSONRPCResponse (NewJSONRPCResponse (None :: json option) (Some (JNumber ''1'')))
       = Some ''response must have either result or error''"
  by (simp add: NewJSONRPCResponse_def ValidateJSONRPCResponse_def)

text \<open>
  C5. \<^verbatim>\<open>ParseJSONRPCRequest\<close> on a request whose id is an explicit JSON \<^verbatim>\<open>null\<close>: the decoder
  sets the field to \<^verbatim>\<open>nil\<close>, as it is for a request with no id, and the request is rejected
  with InvalidRequest and the text \<^verbatim>\<open>id is required\<close>, exactly as the request with no id is.
\<close>

theorem ParseJSONRPCRequest_null_id:
  "ParseJSONRPCRequest errtext ''{\"jsonrpc\":\"2.0\",\"method\":\"test\",\"id\":null}''
     = Inl \<lparr>err_Code = - 32600, err_Message = ''Invalid Request'',
            err_Data = Some (JString ''id is required'')\<rparr>
   \<and> ParseJSONRPCRequest errtext ''{\"jsonrpc\":\"2.0\",\"method\":\"test\"}''
     = Inl \<lparr>err_Code = - 32600, err_Message = ''Invalid Request'',
            err_Data = Some (JString ''id is required'')\<rparr>"
  by code_simp





















section \<open>Properties of the request handler\<close>

lemma OnGetTask_state:
  "snd (OnGetTask h query s) = snd (GetTask (taskStore h) (query_ID query) s)"
  by (auto simp: OnGetTask_def split: prod.splits sum.splits option.splits)

lemma OnGetTask_no_limit:
  "GetTask (taskStore h) tid s = (Inr task, s1) \<Longrightarrow>
     OnGetTask h \<lparr>query_ID = tid, query_HistoryLength = None\<rparr> s = (Inr task, s1)"
  by (simp add: OnGetTask_def)

lemma OnGetTask_limit:
  assumes "GetTask (taskStore h) tid s = (Inr task, s1)"
    and "0 < n" and "n < int (length (task_History task))"
  shows "OnGetTask h \<lparr>query_ID = tid, query_HistoryLength = Some n\<rparr> s
     = (Inr (task\<lparr>task_History :=
          drop (length (task_History task) - nat n) (task_History task)\<rparr>), s1)"
  using assms by (simp add: OnGetTask_def)

lemma OnGetTask_limit_large:
  assumes "GetTask (taskStore h) tid s = (Inr task, s1)"
    and "n \<le> 0 \<or> int (length (task_History task)) \<le> n"
  shows "OnGetTask h \<lparr>query_ID = tid, query_HistoryLength = Some n\<rparr> s = (Inr task, s1)"
  using assms by (auto simp: OnGetTask_def)

lemma last_messages:
  assumes "0 < n" and "n < int (length xs)"
  shows "length (drop (length xs - nat n) xs) = nat n"
    and "\<exists>older. xs = older @ drop (length xs - nat n) xs"
proof -
  from assms show "length (drop (length xs - nat n) xs) = nat n" by simp
  have "xs = take (length xs - nat n) xs @ drop (length xs - nat n) xs" by simp
  then show "\<exists>older. xs = older @ drop (length xs - nat n) xs" by blast
qed

text \<open>
  C4. For a task that the repository returns, \<^verbatim>\<open>OnGetTask\<close> with a limit \<open>n\<close> that is
  positive and below the length of the history returns the task with its history cut to the
  last \<open>n\<close> messages; with no limit, a limit that is not positive or one that is not below the
  length it returns the task as it is. Its only use of the stores is the one call of
  \<^verbatim>\<open>GetTask\<close>: the state it leaves is the state that call leaves, whatever \<^verbatim>\<open>SaveTask\<close> is, and
  a later \<^verbatim>\<open>OnGetTask\<close> with no limit returns the whole history when the repository returns
  the task again.
\<close>

theorem OnGetTask_history_view:
  assumes "GetTask (taskStore h) tid s = (Inr task, s1)"
  shows
  "(0 < n \<and> n < int (length (task_History task)) \<longrightarrow>
      OnGetTask h \<lparr>query_ID = tid, query_HistoryLength = Some n\<rparr> s
        = (Inr (task\<lparr>task_History :=
             drop (length (task_History task) - nat n) (task_History task)\<rparr>), s1)
      \<and> length (drop (length (task_History task) - nat n) (task_History task)) = nat n
      \<and> (\<exists>older. task_History task
            = older @ drop (length (task_History task) - nat n) (task_History task)))
   \<and> (n \<le> 0 \<or> int (length (task_History task)) \<le> n \<longrightarrow>
      OnGetTask h \<lparr>query_ID = tid, query_HistoryLength = Some n\<rparr> s = (Inr task, s1))
   \<and> OnGetTask h \<lparr>query_ID = tid, query_HistoryLength = None\<rparr> s = (Inr task, s1)
   \<and> snd (OnGetTask h \<lparr>query_ID = tid, query_HistoryLength = Some n\<rparr> s) = s1
   \<and> OnGetTask (h\<lparr>taskStore := (taskStore h)\<lparr>SaveTask := save\<rparr>\<rparr>)
        \<lparr>query_ID = tid, query_HistoryLength = Some n\<rparr> s
      = OnGetTask h \<lparr>query_ID = tid, query_HistoryLength = Some n\<rparr> s
   \<and> (GetTask (taskStore h) tid s1 = (Inr task, s2) \<longrightarrow>
      OnGetTask h \<lparr>query_ID = tid, query_HistoryLength = None\<rparr> s1 = (Inr task, s2))"
proof -
  have state: "snd (OnGetTask h \<lparr>query_ID = tid, query_HistoryLength = Some n\<rparr> s) = s1"
    using OnGetTask_state [of h "\<lparr>query_ID = tid, query_HistoryLength = Some n\<rparr>" s] assms
    by simp
  have indep: "OnGetTask (h\<lparr>taskStore := (taskStore h)\<lparr>SaveTask := save\<rparr>\<rparr>)
        \<lparr>query_ID = tid, query_HistoryLength = Some n\<rparr> s
      = OnGetTask h \<lparr>query_ID = tid, query_HistoryLength = Some n\<rparr> s"
    by (simp add: OnGetTask_def)
  show ?thesis
    using OnGetTask_limit [OF assms, of n] OnGetTask_limit_large [OF assms, of n]
      OnGetTask_no_limit [OF assms] OnGetTask_no_limit [of h tid s1 task s2]
      last_messages [of n "task_History task"] state indep
    by blast
qed

theorem OnGetTask_history_view_witness:
  "OnGetTask (memHandler True True True) \<lparr>query_ID = ''t1'', query_HistoryLength = Some 2\<rparr>
      example_world
     = (Inr (example_task\<lparr>task_History := [example_message ''m4'', example_message ''m5'']\<rparr>),
        example_world)
   \<and> OnGetTask (memHandler True True True) \<lparr>query_ID = ''t1'', query_HistoryLength = Some 5\<rparr>
      example_world = (Inr example_task, example_world)
   \<and> OnGetTask (memHandler True True True) \<lparr>query_ID = ''t1'', query_HistoryLength = Some 0\<rparr>
      example_world = (Inr example_task, example_world)
   \<and> OnGetTask (memHandler True True True) \<lparr>query_ID = ''t1'', query_HistoryLength = None\<rparr>
      example_world = (Inr example_task, example_world)
   \<and> length (task_History example_task) = 5"
proof -
  have get: "GetTask (taskStore (memHandler True True True)) ''t1'' example_world
      = (Inr example_task, example_world)"
    by (simp add: memHandler_def NewServerlessA2AHandler_def memTaskStore_def example_world_def)
  have len: "length (task_History example_task) = 5"
    by (simp add: example_task_def)
  have cut: "drop (length (task_History example_task) - nat 2) (task_History example_task)
      = [example_message ''m4'', example_message ''m5'']"
    by (simp add: example_task_def)
  show ?thesis
    using len cut
      OnGetTask_history_view [OF get, of 2] OnGetTask_history_view [OF get, of 5]
      OnGetTask_history_view [OF get, of 0]
    by simp
qed

lemma OnCancelTask_run:
  assumes "GetTask (taskStore h) tid s = (Inr task, s1)"
    and "SaveTask (taskStore h)
           (task\<lparr>task_Status := \<lparr>State = TaskStateCanceled, Timestamp = Some now\<rparr>\<rparr>) s1
         = (None, s2)"
    and "SaveEvent (eventStore h)
           (StatusUpdateEvent
             \<lparr>ev_Kind = ''status-update'', ev_TaskID = task_ID task,
              ev_ContextID = task_ContextID task,
              ev_Status = \<lparr>State = TaskStateCanceled, Timestamp = Some now\<rparr>,
              ev_Final = True\<rparr>) s2
         = (r, s3)"
  shows "OnCancelTask h now \<lparr>cancel_ID = tid\<rparr> s
     = (Inr (task\<lparr>task_Status := \<lparr>State = TaskStateCanceled, Timestamp = Some now\<rparr>\<rparr>), s3)"
  using assms by (simp add: OnCancelTask_def Let_def)

text \<open>
  C3. Whatever the state of the task that the repository returns, when \<^verbatim>\<open>SaveTask\<close>
  succeeds \<^verbatim>\<open>OnCancelTask\<close> saves the task with the state \<^verbatim>\<open>canceled\<close>, then saves a status
  event with \<^verbatim>\<open>Final = true\<close>, and returns the canceled task with no error. A second cancel,
  for which the repository returns the task the first one saved, does the same again: it
  succeeds, the state is still \<^verbatim>\<open>canceled\<close>, and a second final event is saved.
\<close>

theorem OnCancelTask_reentrant:
  assumes "GetTask (taskStore h) tid s = (Inr task, s1)"
    and "SaveTask (taskStore h)
           (task\<lparr>task_Status := \<lparr>State = TaskStateCanceled, Timestamp = Some now\<rparr>\<rparr>) s1
         = (None, s2)"
    and "SaveEvent (eventStore h)
           (StatusUpdateEvent
             \<lparr>ev_Kind = ''status-update'', ev_TaskID = task_ID task,
              ev_ContextID = task_ContextID task,
              ev_Status = \<lparr>State = TaskStateCanceled, Timestamp = Some now\<rparr>,
              ev_Final = True\<rparr>) s2
         = (r, s3)"
    and "GetTask (taskStore h) tid s3
         = (Inr (task\<lparr>task_Status := \<lparr>State = TaskStateCanceled, Timestamp = Some now\<rparr>\<rparr>), s4)"
    and "SaveTask (taskStore h)
           (task\<lparr>task_Status := \<lparr>State = TaskStateCanceled, Timestamp = Some now'\<rparr>\<rparr>) s4
         = (None, s5)"
    and "SaveEvent (eventStore h)
           (StatusUpdateEvent
             \<lparr>ev_Kind = ''status-update'', ev_TaskID = task_ID task,
              ev_ContextID = task_ContextID task,
              ev_Status = \<lparr>State = TaskStateCanceled, Timestamp = Some now'\<rparr>,
              ev_Final = True\<rparr>) s5
         = (r', s6)"
  shows "OnCancelTask h now \<lparr>cancel_ID = tid\<rparr> s
           = (Inr (task\<lparr>task_Status := \<lparr>State = TaskStateCanceled, Timestamp = Some now\<rparr>\<rparr>), s3)
         \<and> OnCancelTask h now' \<lparr>cancel_ID = tid\<rparr> s3
           = (Inr (task\<lparr>task_Status := \<lparr>State = TaskStateCanceled, Timestamp = Some now'\<rparr>\<rparr>), s6)"
proof -
  let ?c = "task\<lparr>task_Status := \<lparr>State = TaskStateCanceled, Timestamp = Some now\<rparr>\<rparr>"
  have first: "OnCancelTask h now \<lparr>cancel_ID = tid\<rparr> s = (Inr ?c, s3)"
    using assms(1-3) by (rule OnCancelTask_run)
  have "OnCancelTask h now' \<lparr>cancel_ID = tid\<rparr> s3
      = (Inr (?c\<lparr>task_Status := \<lparr>State = TaskStateCanceled, Timestamp = Some now'\<rparr>\<rparr>), s6)"
    using assms(4-6) by (intro OnCancelTask_run) simp_all
  with first show ?thesis by simp
qed

theorem OnCancelTask_reentrant_witness:
  "fst (OnCancelTask (memHandler True True True) 200 \<lparr>cancel_ID = ''t1''\<rparr> example_world)
     = Inr (example_task\<lparr>task_Status := \<lparr>State = TaskStateCanceled, Timestamp = Some 200\<rparr>\<rparr>)
   \<and> events (snd (OnCancelTask (memHandler True True True) 200 \<lparr>cancel_ID = ''t1''\<rparr>
        example_world))
     = [StatusUpdateEvent
          \<lparr>ev_Kind = ''status-update'', ev_TaskID = ''t1'', ev_ContextID = ''c1'',
           ev_Status = \<lparr>State = TaskStateCanceled, Timestamp = Some 200\<rparr>, ev_Final = True\<rparr>]
   \<and> fst (OnCancelTask (memHandler True True True) 300 \<lparr>cancel_ID = ''t1''\<rparr>
        (snd (OnCancelTask (memHandler True True True) 200 \<lparr>cancel_ID = ''t1''\<rparr>
          example_world)))
     = Inr (example_task\<lparr>task_Status := \<lparr>State = TaskStateCanceled, Timestamp = Some 300\<rparr>\<rparr>)
   \<and> events (snd (OnCancelTask (memHandler True True True) 300 \<lparr>cancel_ID = ''t1''\<rparr>
        (snd (OnCancelTask (memHandler True True True) 200 \<lparr>cancel_ID = ''t1''\<rparr>
          example_world))))
     = [StatusUpdateEvent
          \<lparr>ev_Kind = ''status-update'', ev_TaskID = ''t1'', ev_ContextID = ''c1'',
           ev_Status = \<lparr>State = TaskStateCanceled, Timestamp = Some 200\<rparr>, ev_Final = True\<rparr>,
        StatusUpdateEvent
          \<lparr>ev_Kind = ''status-update'', ev_TaskID = ''t1'', ev_ContextID = ''c1'',
           ev_Status = \<lparr>State = TaskStateCanceled, Timestamp = Some 300\<rparr>, ev_Final = True\<rparr>]"
proof -
  let ?h = "memHandler True True True"
  let ?c1 = "example_task\<lparr>task_Status := \<lparr>State = TaskStateCanceled, Timestamp = Some 200\<rparr>\<rparr>"
  let ?c2 = "example_task\<lparr>task_Status := \<lparr>State = TaskStateCanceled, Timestamp = Some 300\<rparr>\<rparr>"
  let ?e1 = "StatusUpdateEvent
      \<lparr>ev_Kind = ''status-update'', ev_TaskID = task_ID example_task,
       ev_ContextID = task_ContextID example_task,
       ev_Status = \<lparr>State = TaskStateCanceled, Timestamp = Some 200\<rparr>, ev_Final = True\<rparr>"
  let ?e2 = "StatusUpdateEvent
      \<lparr>ev_Kind = ''status-update'', ev_TaskID = task_ID example_task,
       ev_ContextID = task_ContextID example_task,
       ev_Status = \<lparr>State = TaskStateCanceled, Timestamp = Some 300\<rparr>, ev_Final = True\<rparr>"
  let ?w2 = "example_world\<lparr>tasks := (tasks example_world)(''t1'' \<mapsto> ?c1)\<rparr>"
  let ?w3 = "?w2\<lparr>events := events ?w2 @ [?e1]\<rparr>"
  let ?w5 = "?w3\<lparr>tasks := (tasks ?w3)(''t1'' \<mapsto> ?c2)\<rparr>"
  let ?w6 = "?w5\<lparr>events := events ?w5 @ [?e2]\<rparr>"
  have ids: "task_ID example_task = ''t1''" "task_ContextID example_task = ''c1''"
    by (simp_all add: example_task_def)
  have g1: "GetTask (taskStore ?h) ''t1'' example_world = (Inr example_task, example_world)"
    by (simp add: memHandler_def NewServerlessA2AHandler_def memTaskStore_def example_world_def)
  have s1: "SaveTask (taskStore ?h) ?c1 example_world = (None, ?w2)"
    by (simp add: memHandler_def NewServerlessA2AHandler_def memTaskStore_def ids)
  have e1: "SaveEvent (eventStore ?h) ?e1 ?w2 = (None, ?w3)"
    by (simp add: memHandler_def NewServerlessA2AHandler_def memEventStore_def)
  have g2: "GetTask (taskStore ?h) ''t1'' ?w3 = (Inr ?c1, ?w3)"
    by (simp add: memHandler_def NewServerlessA2AHandler_def memTaskStore_def)
  have s2: "SaveTask (taskStore ?h) ?c2 ?w3 = (None, ?w5)"
    by (simp add: memHandler_def NewServerlessA2AHandler_def memTaskStore_def ids)
  have e2: "SaveEvent (eventStore ?h) ?e2 ?w5 = (None, ?w6)"
    by (simp add: memHandler_def NewServerlessA2AHandler_def memEventStore_def)
  have ev3: "events ?w3 = [?e1]" and ev6: "events ?w6 = [?e1, ?e2]"
    by (simp_all add: example_world_def)
  from OnCancelTask_reentrant [OF g1 s1 e1 g2 s2 e2] ev3 ev6 ids
  show ?thesis by simp
qed

text \<open>
  C10. When \<^verbatim>\<open>OnCancelTask\<close> returns a task, that task is the one the repository returned
  with its status replaced and nothing else changed: id, context id, kind, history and
  metadata are those of the loaded task; and it is the task that was handed to \<^verbatim>\<open>SaveTask\<close>.
\<close>

theorem OnCancelTask_frame:
  assumes "OnCancelTask h now p s = (Inr t', s')"
  shows "\<exists>task s1 s2.
           GetTask (taskStore h) (cancel_ID p) s = (Inr task, s1)
           \<and> SaveTask (taskStore h) t' s1 = (None, s2)
           \<and> t' = task\<lparr>task_Status := \<lparr>State = TaskStateCanceled, Timestamp = Some now\<rparr>\<rparr>
           \<and> task_ID t' = task_ID task
           \<and> task_ContextID t' = task_ContextID task
           \<and> task_Kind t' = task_Kind task
           \<and> task_History t' = task_History task
           \<and> task_Metadata t' = task_Metadata task"
proof -
  obtain r s1 where g: "GetTask (taskStore h) (cancel_ID p) s = (r, s1)"
    by (cases "GetTask (taskStore h) (cancel_ID p) s")
  from assms g obtain task where r: "r = Inr task"
    by (cases r) (auto simp: OnCancelTask_def)
  let ?c = "task\<lparr>task_Status := \<lparr>State = TaskStateCanceled, Timestamp = Some now\<rparr>\<rparr>"
  obtain e s2 where sv: "SaveTask (taskStore h) ?c s1 = (e, s2)"
    by (cases "SaveTask (taskStore h) ?c s1")
  from assms g r sv have e: "e = None"
    by (cases e) (auto simp: OnCancelTask_def Let_def)
  from assms g r sv e have t': "t' = ?c"
    by (auto simp: OnCancelTask_def Let_def split: prod.splits)
  from g r sv e t' show ?thesis by auto
qed

theorem OnCancelTask_frame_witness:
  "\<exists>t'. fst (OnCancelTask (memHandler True True True) 200 \<lparr>cancel_ID = ''t1''\<rparr> example_world)
           = Inr t'
     \<and> task_ID t' = ''t1'' \<and> task_ContextID t' = ''c1'' \<and> task_Kind t' = ''task''
     \<and> task_History t' = map example_message [''m1'', ''m2'', ''m3'', ''m4'', ''m5'']
     \<and> task_Metadata t' = Map.empty
     \<and> State (task_Status t') = TaskStateCanceled
     \<and> tasks (snd (OnCancelTask (memHandler True True True) 200 \<lparr>cancel_ID = ''t1''\<rparr>
          example_world)) ''t1'' = Some t'"
proof -
  let ?h = "memHandler True True True"
  let ?c1 = "example_task\<lparr>task_Status := \<lparr>State = TaskStateCanceled, Timestamp = Some 200\<rparr>\<rparr>"
  obtain t' w' where run: "OnCancelTask ?h 200 \<lparr>cancel_ID = ''t1''\<rparr> example_world = (Inr t', w')"
    by (simp add: OnCancelTask_def Let_def memHandler_def NewServerlessA2AHandler_def
        memTaskStore_def memEventStore_def example_world_def)
  have get: "GetTask (taskStore ?h) ''t1'' example_world = (Inr example_task, example_world)"
    by (simp add: memHandler_def NewServerlessA2AHandler_def memTaskStore_def example_world_def)
  from OnCancelTask_frame [OF run] get
  have frame: "t' = ?c1" "task_ID t' = task_ID example_task"
    "task_ContextID t' = task_ContextID example_task" "task_Kind t' = task_Kind example_task"
    "task_History t' = task_History example_task" "task_Metadata t' = task_Metadata example_task"
    by auto
  have stored: "tasks w' ''t1'' = Some ?c1"
    using run
    by (auto simp: OnCancelTask_def Let_def memHandler_def NewServerlessA2AHandler_def
        memTaskStore_def memEventStore_def example_world_def example_task_def)
  from run frame stored show ?thesis
    by (simp add: example_task_def)
qed

text \<open>
  C7. No operation of the handler calls the notification sink: the result and the state
  that \<^verbatim>\<open>OnCancelTask\<close>, \<^verbatim>\<open>OnGetTask\<close> and \<^verbatim>\<open>OnSendMessage\<close> leave are the same whatever the
  \<^verbatim>\<open>PushNotifier\<close> of the handler is, so no failure of a notification can change the result of
  an operation. The failure that \<^verbatim>\<open>OnCancelTask\<close> catches is that of the event append: once
  the canceled task is saved, the canceled task is returned whether \<^verbatim>\<open>SaveEvent\<close> succeeds or
  fails.
\<close>

theorem OnCancelTask_no_notification:
  "OnCancelTask (h\<lparr>pushNotifier := n\<rparr>) now p s = OnCancelTask h now p s
   \<and> OnGetTask (h\<lparr>pushNotifier := n\<rparr>) q s = OnGetTask h q s
   \<and> OnSendMessage (h\<lparr>pushNotifier := n\<rparr>) clock m s = OnSendMessage h clock m s
   \<and> (GetTask (taskStore h) (cancel_ID p) s = (Inr task, s1)
        \<and> SaveTask (taskStore h)
             (task\<lparr>task_Status := \<lparr>State = TaskStateCanceled, Timestamp = Some now\<rparr>\<rparr>) s1
           = (None, s2)
      \<longrightarrow> fst (OnCancelTask h now p s)
           = Inr (task\<lparr>task_Status := \<lparr>State = TaskStateCanceled, Timestamp = Some now\<rparr>\<rparr>))"
proof -
  have cancel: "OnCancelTask (h\<lparr>pushNotifier := n\<rparr>) now p s = OnCancelTask h now p s"
    by (simp add: OnCancelTask_def Let_def split: prod.splits sum.splits option.splits)
  have get: "OnGetTask (h\<lparr>pushNotifier := n\<rparr>) q s = OnGetTask h q s"
    by (simp add: OnGetTask_def split: prod.splits sum.splits option.splits)
  have send: "OnSendMessage (h\<lparr>pushNotifier := n\<rparr>) clock m s = OnSendMessage h clock m s"
    by (simp add: OnSendMessage_def Let_def split: prod.splits sum.splits option.splits)
  have caught: "fst (OnCancelTask h now p s)
      = Inr (task\<lparr>task_Status := \<lparr>State = TaskStateCanceled, Timestamp = Some now\<rparr>\<rparr>)"
    if "GetTask (taskStore h) (cancel_ID p) s = (Inr task, s1)"
      and "SaveTask (taskStore h)
             (task\<lparr>task_Status := \<lparr>State = TaskStateCanceled, Timestamp = Some now\<rparr>\<rparr>) s1
           = (None, s2)"
    using that by (simp add: OnCancelTask_def Let_def split: prod.splits)
  from cancel get send caught show ?thesis by blast
qed

theorem OnCancelTask_no_notification_witness:
  "OnCancelTask (memHandler True True False) 200 \<lparr>cancel_ID = ''t1''\<rparr> example_world
     = OnCancelTask (memHandler True True True) 200 \<lparr>cancel_ID = ''t1''\<rparr> example_world
   \<and> fst (OnCancelTask (memHandler True False True) 200 \<lparr>cancel_ID = ''t1''\<rparr> example_world)
     = Inr (example_task\<lparr>task_Status := \<lparr>State = TaskStateCanceled, Timestamp = Some 200\<rparr>\<rparr>)
   \<and> events (snd (OnCancelTask (memHandler True False True) 200 \<lparr>cancel_ID = ''t1''\<rparr>
        example_world)) = []"
proof -
  let ?c1 = "example_task\<lparr>task_Status := \<lparr>State = TaskStateCanceled, Timestamp = Some 200\<rparr>\<rparr>"
  have h: "memHandler True True False
      = (memHandler True True True)\<lparr>pushNotifier := memPushNotifier False\<rparr>"
    by (simp add: memHandler_def NewServerlessA2AHandler_def)
  have get: "GetTask (taskStore (memHandler True False True)) (cancel_ID \<lparr>cancel_ID = ''t1''\<rparr>)
      example_world = (Inr example_task, example_world)"
    by (simp add: memHandler_def NewServerlessA2AHandler_def memTaskStore_def example_world_def)
  have save: "SaveTask (taskStore (memHandler True False True)) ?c1 example_world
      = (None, example_world\<lparr>tasks := (tasks example_world)(''t1'' \<mapsto> ?c1)\<rparr>)"
    by (simp add: memHandler_def NewServerlessA2AHandler_def memTaskStore_def example_task_def)
  have log: "events (snd (OnCancelTask (memHandler True False True) 200 \<lparr>cancel_ID = ''t1''\<rparr>
      example_world)) = []"
    by (simp add: OnCancelTask_def Let_def memHandler_def NewServerlessA2AHandler_def
        memTaskStore_def memEventStore_def example_world_def)
  show ?thesis
    using h get save log
      OnCancelTask_no_notification [where h = "memHandler True True True"
        and n = "memPushNotifier False" and now = 200 and p = "\<lparr>cancel_ID = ''t1''\<rparr>"
        and s = example_world]
      OnCancelTask_no_notification [where h = "memHandler True False True" and now = 200
        and p = "\<lparr>cancel_ID = ''t1''\<rparr>" and s = example_world and task = example_task
        and ?s1.0 = example_world
        and ?s2.0 = "example_world\<lparr>tasks := (tasks example_world)(''t1'' \<mapsto> ?c1)\<rparr>"]
    by simp
qed

text \<open>
  A cancel whose event append succeeds: the event is in the log, and nothing has been
  handed to the notification sink.
\<close>

theorem OnCancelTask_notification_counterexample:
  "events (snd (OnCancelTask (memHandler True True True) 200 \<lparr>cancel_ID = ''t1''\<rparr>
       example_world))
     = [StatusUpdateEvent
          \<lparr>ev_Kind = ''status-update'', ev_TaskID = ''t1'', ev_ContextID = ''c1'',
           ev_Status = \<lparr>State = TaskStateCanceled, Timestamp = Some 200\<rparr>, ev_Final = True\<rparr>]
   \<and> sent (snd (OnCancelTask (memHandler True True True) 200 \<lparr>cancel_ID = ''t1''\<rparr>
       example_world)) = []"
  by (simp add: OnCancelTask_def Let_def memHandler_def NewServerlessA2AHandler_def
      memTaskStore_def memEventStore_def example_world_def example_task_def)

lemma OnSendMessage_new:
  assumes "msg_TaskID (send_Message m) = None"
    and "SaveTask (taskStore h)
           ((newTask (clock 0) (clock 1))
              \<lparr>task_History := task_History (newTask (clock 0) (clock 1)) @ [send_Message m],
               task_Status := \<lparr>State = TaskStateWorking, Timestamp = Some (clock 2)\<rparr>\<rparr>) s
         = (None, s')"
  shows "OnSendMessage h clock m s
     = (Inr ((newTask (clock 0) (clock 1))
              \<lparr>task_History := task_History (newTask (clock 0) (clock 1)) @ [send_Message m],
               task_Status := \<lparr>State = TaskStateWorking, Timestamp = Some (clock 2)\<rparr>\<rparr>), s')"
  using assms by (simp add: OnSendMessage_def Let_def)

text \<open>
  C2. For a message that carries no task id, when \<^verbatim>\<open>SaveTask\<close> succeeds \<^verbatim>\<open>OnSendMessage\<close>
  returns, with no error, the task it saved: its id is \<^verbatim>\<open>task_\<close> and its context id
  \<^verbatim>\<open>ctx_\<close> followed by the clock readings taken in this call, its state is \<^verbatim>\<open>working\<close> and
  its history is the sent message alone. The task is the new task, which has the state
  \<^verbatim>\<open>submitted\<close> and an empty history, with the message appended and the status replaced.
\<close>

theorem OnSendMessage_new_task:
  assumes "msg_TaskID (send_Message m) = None"
    and "SaveTask (taskStore h)
           ((newTask (clock 0) (clock 1))
              \<lparr>task_History := task_History (newTask (clock 0) (clock 1)) @ [send_Message m],
               task_Status := \<lparr>State = TaskStateWorking, Timestamp = Some (clock 2)\<rparr>\<rparr>) s
         = (None, s')"
  shows "\<exists>task. OnSendMessage h clock m s = (Inr task, s')
           \<and> task_ID task = ''task_'' @ show_int (clock 0)
           \<and> task_ContextID task = ''ctx_'' @ show_int (clock 1)
           \<and> task_Kind task = ''task''
           \<and> State (task_Status task) = TaskStateWorking
           \<and> Timestamp (task_Status task) = Some (clock 2)
           \<and> task_History task = [send_Message m]
           \<and> task_Metadata task = Map.empty
           \<and> task = (newTask (clock 0) (clock 1))
                \<lparr>task_History := task_History (newTask (clock 0) (clock 1)) @ [send_Message m],
                 task_Status := \<lparr>State = TaskStateWorking, Timestamp = Some (clock 2)\<rparr>\<rparr>
           \<and> State (task_Status (newTask (clock 0) (clock 1))) = TaskStateSubmitted
           \<and> Timestamp (task_Status (newTask (clock 0) (clock 1))) = Some (clock 0)
           \<and> task_History (newTask (clock 0) (clock 1)) = []"
  using OnSendMessage_new [OF assms]
  by (simp add: newTask_def generateContextID_def)

theorem OnSendMessage_new_task_witness:
  "\<exists>task. fst (OnSendMessage (memHandler True True True) (\<lambda>n. 1000 + int n)
              \<lparr>send_Message = \<lparr>msg_MessageID = ''m9'', msg_TaskID = None, msg_Role = ''user'',
                 msg_Parts = []\<rparr>\<rparr> example_world) = Inr task
     \<and> task_ID task = ''task_1000''
     \<and> task_ContextID task = ''ctx_1001''
     \<and> State (task_Status task) = TaskStateWorking
     \<and> task_History task
         = [\<lparr>msg_MessageID = ''m9'', msg_TaskID = None, msg_Role = ''user'', msg_Parts = []\<rparr>]
     \<and> tasks (snd (OnSendMessage (memHandler True True True) (\<lambda>n. 1000 + int n)
              \<lparr>send_Message = \<lparr>msg_MessageID = ''m9'', msg_TaskID = None, msg_Role = ''user'',
                 msg_Parts = []\<rparr>\<rparr> example_world)) ''task_1000'' = Some task"
proof -
  let ?h = "memHandler True True True"
  let ?clock = "\<lambda>n. 1000 + int n"
  let ?msg = "\<lparr>msg_MessageID = ''m9'', msg_TaskID = None, msg_Role = ''user'', msg_Parts = []\<rparr>"
  let ?m = "\<lparr>send_Message = ?msg\<rparr>"
  let ?t = "(newTask (?clock 0) (?clock 1))
      \<lparr>task_History := task_History (newTask (?clock 0) (?clock 1)) @ [send_Message ?m],
       task_Status := \<lparr>State = TaskStateWorking, Timestamp = Some (?clock 2)\<rparr>\<rparr>"
  have d0: "show_int 1000 = ''1000''" and d1: "show_int 1001 = ''1001''"
    by code_simp+
  have no_id: "msg_TaskID (send_Message ?m) = None"
    by simp
  have save: "SaveTask (taskStore ?h) ?t example_world
      = (None, example_world\<lparr>tasks := (tasks example_world)(''task_1000'' \<mapsto> ?t)\<rparr>)"
    by (simp add: memHandler_def NewServerlessA2AHandler_def memTaskStore_def newTask_def d0)
  from OnSendMessage_new_task [OF no_id save] d0 d1
  show ?thesis by auto
qed

section \<open>Properties of the router\<close>


















end
